theory Spec2Isabelle
  imports Main "HOL-Library.Word" "HOL-Library.Sublist"
begin

unbundle bit_operations_syntax

section \<open>Data model\<close>

text \<open>
  The Go sources carry channel ids, user ids and sizes as \<open>int64\<close>: a 64-bit word read
  as two's complement, so \<open>-\<close> wraps and \<open><s\<close> is Go's \<open><\<close> on \<open>int64\<close>.
\<close>

type_synonym int64 = "64 word"

subsection \<open>The platform's update shapes (package tg of the client library)\<close>

text \<open>
  The handlers only test which variant a value is, so each interface of the client library is
  a datatype with the variants the code names and a few standing for those it never names.
  A nil \<open>Media\<close> is \<open>None\<close>.
\<close>

datatype DocumentAttributeClass =
    DocumentAttributeFilename string
  | DocumentAttributeImageSize
  | DocumentAttributeVideo
  | DocumentAttributeAudio

record Document =
  Size :: int64
  Attributes :: "DocumentAttributeClass list"

datatype DocumentClass = DocumentOf Document | DocumentEmpty

datatype MessageMediaClass =
    MessageMediaDocument DocumentClass
  | MessageMediaPhoto
  | MessageMediaOther

datatype PeerClass = PeerUser int64 | PeerChat int64 | PeerChannel int64

record Message =
  PeerID :: PeerClass
  Media :: "MessageMediaClass option"

datatype MessageClass = MessageOf Message | MessageService | MessageEmpty

datatype UpdateClass =
    UpdateNewChannelMessage MessageClass
  | UpdateNewMessage MessageClass
  | UpdateOther

datatype UpdatesClass =
    Updates "UpdateClass list"
  | UpdateShort UpdateClass
  | UpdatesTooLong
  | UpdateShortMessage
  | UpdatesCombined "UpdateClass list"

subsection \<open>Catalog rows (table teldrive.files)\<close>

text \<open>
  One row per INSERT statement, with the columns the handlers bind. A column that a
  statement does not list, or binds to a nil pointer, is \<open>None\<close>. The two timestamp columns
  and the constant empty \<open>parts\<close> array are left out; the Go field \<open>Size\<close> is
  \<open>FileSize\<close> here, \<open>Size\<close> being the field of the document.
\<close>

record File =
  ID :: string
  Name :: string
  Type :: string
  MimeType :: string
  FileSize :: int64
  Category :: "string option"
  Encrypted :: "bool option"
  UserId :: int64
  Status :: "string option"
  ChannelId :: "int64 option"
  ParentId :: "string option"

subsection \<open>The store, the id generator and the clock\<close>

text \<open>
  The handlers talk to a store they do not control. Its side is an environment of replies:
  the error text (or \<open>None\<close> for success) of the n-th read statement and of the n-th
  INSERT, the n-th value of \<open>uuid.New().String()\<close>, the n-th reading of
  \<open>time.Now().Format("20060102_150405")\<close>, the standard library's
  \<open>mime.TypeByExtension\<close>, and what the standard library's \<open>strings.ToLower\<close> returns
  for a string that holds a byte outside ASCII (its Unicode case mapping, which is not
  written out here). The world records what the handlers did: the rows the store
  accepted, every INSERT sent (accepted or not), and how many reads, ids and clock readings
  were consumed.
\<close>

record env =
  read_err :: "nat \<Rightarrow> string option"
  insert_err :: "nat \<Rightarrow> string option"
  uuid_String :: "nat \<Rightarrow> string"
  time_Format :: "nat \<Rightarrow> string"
  TypeByExtension :: "string \<Rightarrow> string"
  ToLower_Unicode :: "string \<Rightarrow> string"

record world =
  files :: "File list"
  execs :: "File list"
  reads :: nat
  uuids :: nat
  clock :: nat

text \<open>
  The configuration fields the four handler structs share (\<open>BotHandler\<close>,
  \<open>StandaloneBotHandler\<close>, \<open>IntegratedBotHandler\<close>, \<open>updateHandler\<close>); \<open>parentId\<close>
  exists in the last two only.
\<close>

record BotHandler =
  botToken :: string
  channelId :: int64
  parentId :: string

text \<open>
  Where a handler returns, named after what it logs there: \<open>UpdateSkipped\<close> is an update
  that is no \<open>UpdateNewChannelMessage\<close>, \<open>NotChannelPeer\<close> a message whose peer is no
  \<open>PeerChannel\<close> (both return without a word), \<open>Ignored\<close> is ``IGNORING MESSAGE'',
  \<open>NoFilenameAttribute\<close> is ``Document has no filename attribute''.
\<close>

datatype outcome =
    UpdateSkipped
  | MessageCastFailed
  | NotChannelPeer
  | Ignored
  | NoDocument
  | DocumentCastFailed
  | NoFilenameAttribute
  | ConnectionTestFailed
  | InsertFailed
  | InsertModifiedFailed
  | InsertRandomFailed
  | Inserted
  | InsertedModified
  | InsertedRandom

section \<open>Channel identifiers\<close>

text \<open>
  The value the handlers call \<open>actualConfiguredChannelID\<close> (bot_handler.go, Handle;
  standalone_bot.go, Start and handleChannelMessage; integrated_bot.go): the configured id
  with the -100 prefix removed by magnitude thresholds.
\<close>

definition actualConfiguredChannelID :: "int64 \<Rightarrow> int64" where
  "actualConfiguredChannelID c =
     (if c <s 0 then
        (if c <s - 1000000000000 then - c - 1000000000000
         else if c <s - 1000000 then - c - 1000000
         else c)
      else c)"

text \<open>
  cmd/run.go, runApplication: a positive configured id is converted to the bot format before
  the integrated handler is built.
\<close>

definition runApplication_actualChannelID :: "int64 \<Rightarrow> int64" where
  "runApplication_actualChannelID c =
     (if 0 <s c then - 1000000000000 - c else c)"

datatype channel_class = Broadcast | Legacy

text \<open>
  Modelled from the spec: the sources hold no function from an internal id back to a
  configured id for both classes (run.go has the broadcast direction only), so
  \<open>denormalize\<close> is the specification's formula, \<open>-(10^12 + x)\<close> for the broadcast class
  and \<open>-(10^6 + x)\<close> for the legacy class, on \<open>int64\<close>.
\<close>

definition denormalize :: "int64 \<Rightarrow> channel_class \<Rightarrow> int64" where
  "denormalize x c =
     (case c of Broadcast \<Rightarrow> - (1000000000000 + x) | Legacy \<Rightarrow> - (1000000 + x))"

text \<open>
  The condition \<open>channelID == h.bot.channelId || channelID == actualConfiguredChannelID\<close>
  under which the handlers process a message (``direct'' or ``actual'' match).
\<close>

definition ourChannel :: "BotHandler \<Rightarrow> int64 \<Rightarrow> bool" where
  "ourChannel h channelID \<longleftrightarrow>
     channelID = channelId h \<or> channelID = actualConfiguredChannelID (channelId h)"

text \<open>
  bot_handler.go, BotHandler.Start, up to the creation of the client: the two checks of the
  configuration, as the error text returned (\<open>None\<close> when Start goes on).
\<close>

definition BotHandler_Start_validate :: "BotHandler \<Rightarrow> string option" where
  "BotHandler_Start_validate h =
     (if botToken h = [] then Some ''bot token is required''
      else if channelId h = 0 then Some ''channel ID is required''
      else None)"

section \<open>Standard-library functions the handlers call\<close>

text \<open>
  \<open>strings.Contains\<close>, \<open>strings.LastIndex\<close> (for a one-byte separator),
  \<open>strings.ToLower\<close>, \<open>filepath.Ext\<close> and \<open>filepath.Base\<close> (with \<open>/\<close> as the separator),
  as the Go documentation defines them. \<open>strings.ToLower\<close> maps the letters A to Z of a
  string of ASCII bytes (all below 128) to a to z and keeps its other bytes; on any other
  string it applies the Unicode case mapping to the decoded runes (U+0130 and U+212A become
  the ASCII letters i and k), and that result is the environment's \<open>ToLower_Unicode\<close>.
\<close>

fun strings_Contains :: "string \<Rightarrow> string \<Rightarrow> bool" where
  "strings_Contains [] substr = (substr = [])"
| "strings_Contains (c # s) substr = (prefix substr (c # s) \<or> strings_Contains s substr)"

definition strings_LastIndex :: "string \<Rightarrow> char \<Rightarrow> nat option" where
  "strings_LastIndex s c =
     (if c \<in> set s then Some (length s - Suc (length (takeWhile (\<lambda>x. x \<noteq> c) (rev s))))
      else None)"

definition toLower_char :: "char \<Rightarrow> char" where
  "toLower_char c =
     (case map_of (zip ''ABCDEFGHIJKLMNOPQRSTUVWXYZ'' ''abcdefghijklmnopqrstuvwxyz'') c of
        Some l \<Rightarrow> l
      | None \<Rightarrow> c)"

definition isASCII :: "string \<Rightarrow> bool" where
  "isASCII s = list_all (\<lambda>c. \<not> digit7 c) s"

definition strings_ToLower :: "env \<Rightarrow> string \<Rightarrow> string" where
  "strings_ToLower e s = (if isASCII s then map toLower_char s else ToLower_Unicode e s)"

definition filepath_Ext :: "string \<Rightarrow> string" where
  "filepath_Ext path =
     (case dropWhile (\<lambda>c. c \<noteq> CHR ''.'' \<and> c \<noteq> CHR ''/'') (rev path) of
        [] \<Rightarrow> []
      | c # _ \<Rightarrow>
          if c = CHR ''.''
          then c # rev (takeWhile (\<lambda>c. c \<noteq> CHR ''.'' \<and> c \<noteq> CHR ''/'') (rev path))
          else [])"

definition filepath_Base :: "string \<Rightarrow> string" where
  "filepath_Base path =
     (if path = [] then ''.''
      else (let stripped = dropWhile (\<lambda>c. c = CHR ''/'') (rev path);
                element = rev (takeWhile (\<lambda>c. c \<noteq> CHR ''/'') stripped)
            in if element = [] then ''/'' else element))"

section \<open>Calls on the store, the id generator and the clock\<close>

definition uuid_New :: "env \<Rightarrow> world \<Rightarrow> string \<times> world" where
  "uuid_New e w = (uuid_String e (uuids w), w\<lparr>uuids := Suc (uuids w)\<rparr>)"

definition time_Now :: "env \<Rightarrow> world \<Rightarrow> string \<times> world" where
  "time_Now e w = (time_Format e (clock w), w\<lparr>clock := Suc (clock w)\<rparr>)"

text \<open>\<open>db.Raw("SELECT 1").Scan(&result).Error\<close>\<close>

definition db_Raw_Select1 :: "env \<Rightarrow> world \<Rightarrow> string option \<times> world" where
  "db_Raw_Select1 e w = (read_err e (reads w), w\<lparr>reads := Suc (reads w)\<rparr>)"

text \<open>
  \<open>db.Table("teldrive.files").Where("name = ? AND user_id = ?", ...).First(...).Error\<close>: nil when
  the statement ran and a row matches.
\<close>

definition db_First :: "env \<Rightarrow> string \<Rightarrow> int64 \<Rightarrow> world \<Rightarrow> string option \<times> world" where
  "db_First e fileName userId w =
     ((case read_err e (reads w) of
         Some err \<Rightarrow> Some err
       | None \<Rightarrow>
          (case find (\<lambda>f. Name f = fileName \<and> UserId f = userId) (files w) of
             Some _ \<Rightarrow> None
           | None \<Rightarrow> Some ''record not found'')),
      w\<lparr>reads := Suc (reads w)\<rparr>)"

text \<open>
  \<open>db.Exec("INSERT INTO teldrive.files ...").Error\<close>: the statement is sent, and the row is in
  the catalog when the store answers without an error.
\<close>

definition db_Exec_Insert :: "env \<Rightarrow> File \<Rightarrow> world \<Rightarrow> string option \<times> world" where
  "db_Exec_Insert e file w =
     (let err = insert_err e (length (execs w))
      in (err, w\<lparr>execs := execs w @ [file],
                  files := (if err = None then files w @ [file] else files w)\<rparr>))"

section \<open>The Document Extractor's search for the filename\<close>

text \<open>
  The loop all four handlers share: the \<open>FileName\<close> of the first
  \<open>DocumentAttributeFilename\<close>, or the empty string.
\<close>

fun findFileName :: "DocumentAttributeClass list \<Rightarrow> string" where
  "findFileName [] = []"
| "findFileName (DocumentAttributeFilename fileName # attrs) = fileName"
| "findFileName (attr # attrs) = findFileName attrs"

section \<open>The row a handler builds\<close>

text \<open>
  The struct literal \<open>models.File{...}\<close> of bot_handler.go, standalone_bot.go and
  simplebot_main.go: the three write the same constants (type, category, encrypted, user id,
  status) and differ in the id, name, MIME type, size, channel and parent they pass.
\<close>

definition models_File ::
  "string \<Rightarrow> string \<Rightarrow> string \<Rightarrow> int64 \<Rightarrow> int64 \<Rightarrow> string option \<Rightarrow> File" where
  "models_File fileID fileName mimeType fileSize channelID parent =
     \<lparr>ID = fileID, Name = fileName, Type = ''file'', MimeType = mimeType,
      FileSize = fileSize, Category = Some ''document'', Encrypted = Some False,
      UserId = 7331706161, Status = Some ''active'', ChannelId = Some channelID,
      ParentId = parent\<rparr>"

section \<open>internal/tgc/bot_handler.go\<close>

text \<open>
  BotHandler.handleNewMessage. The row's channel is the configured \<open>h.channelId\<close>, the MIME
  type and the parent are constants, and a failed INSERT ends the function.
\<close>

definition bot_handleNewMessage ::
  "BotHandler \<Rightarrow> env \<Rightarrow> MessageClass \<Rightarrow> world \<Rightarrow> outcome \<times> world" where
  "bot_handleNewMessage h e message w =
     (case message of
        MessageOf msg \<Rightarrow>
          (case Media msg of
             Some (MessageMediaDocument doc) \<Rightarrow>
               (case doc of
                  DocumentOf document \<Rightarrow>
                    (let fileName = findFileName (Attributes document)
                     in if fileName = [] then (NoFilenameAttribute, w)
                        else
                          (let size = Size document;
                               channelID = channelId h;
                               (fileID, w1) = uuid_New e w;
                               file = models_File fileID fileName ''application/octet-stream'' size
                                        channelID None;
                               (err, w2) = db_Raw_Select1 e w1
                           in case err of
                                Some _ \<Rightarrow> (ConnectionTestFailed, w2)
                              | None \<Rightarrow>
                                  (let (err, w3) = db_Exec_Insert e file w2
                                   in case err of
                                        Some _ \<Rightarrow> (InsertFailed, w3)
                                      | None \<Rightarrow> (Inserted, w3))))
                | DocumentEmpty \<Rightarrow> (DocumentCastFailed, w))
           | _ \<Rightarrow> (NoDocument, w))
      | _ \<Rightarrow> (MessageCastFailed, w))"

text \<open>The body of the loop over a batch in botUpdateHandler.Handle.\<close>

definition bot_handleUpdate ::
  "BotHandler \<Rightarrow> env \<Rightarrow> UpdateClass \<Rightarrow> world \<Rightarrow> outcome \<times> world" where
  "bot_handleUpdate h e update w =
     (case update of
        UpdateNewChannelMessage message \<Rightarrow>
          (case message of
             MessageOf msg \<Rightarrow>
               (case PeerID msg of
                  PeerChannel channelID \<Rightarrow>
                    if ourChannel h channelID
                    then bot_handleNewMessage h e message w
                    else (Ignored, w)
                | _ \<Rightarrow> (NotChannelPeer, w))
           | _ \<Rightarrow> (MessageCastFailed, w))
      | _ \<Rightarrow> (UpdateSkipped, w))"

fun bot_handleBatch ::
  "BotHandler \<Rightarrow> env \<Rightarrow> UpdateClass list \<Rightarrow> world \<Rightarrow> outcome list \<times> world" where
  "bot_handleBatch h e [] w = ([], w)"
| "bot_handleBatch h e (update # rest) w =
     (let (r, w1) = bot_handleUpdate h e update w;
          (rs, w2) = bot_handleBatch h e rest w1
      in (r # rs, w2))"

text \<open>
  botUpdateHandler.Handle: only a batch is unpacked; a short update, a too-long notification
  and every other shape are logged. The result lists the outcome of each update handled; the
  Go function always returns a nil error.
\<close>

definition bot_Handle ::
  "BotHandler \<Rightarrow> env \<Rightarrow> UpdatesClass \<Rightarrow> world \<Rightarrow> outcome list \<times> world" where
  "bot_Handle h e updates w =
     (case updates of
        Updates us \<Rightarrow> bot_handleBatch h e us w
      | UpdateShort u \<Rightarrow> ([], w)
      | UpdatesTooLong \<Rightarrow> ([], w)
      | _ \<Rightarrow> ([], w))"

section \<open>internal/tgc/standalone_bot.go\<close>

text \<open>
  standaloneUpdateHandler.processDocument: on a duplicate-key error one more INSERT, with the
  timestamp appended to the whole name and a new id.
\<close>

definition standalone_processDocument ::
  "BotHandler \<Rightarrow> env \<Rightarrow> DocumentClass \<Rightarrow> int64 \<Rightarrow> world \<Rightarrow> outcome \<times> world" where
  "standalone_processDocument h e doc channelID w =
     (case doc of
        DocumentEmpty \<Rightarrow> (DocumentCastFailed, w)
      | DocumentOf document \<Rightarrow>
          (let fileName = findFileName (Attributes document)
           in if fileName = [] then (NoFilenameAttribute, w)
              else
                (let size = Size document;
                     (fileID, w1) = uuid_New e w;
                     file = models_File fileID fileName ''application/octet-stream'' size
                              channelID None;
                     (err, w2) = db_Raw_Select1 e w1
                 in case err of
                      Some _ \<Rightarrow> (ConnectionTestFailed, w2)
                    | None \<Rightarrow>
                        (let (err, w3) = db_Exec_Insert e file w2
                         in case err of
                              None \<Rightarrow> (Inserted, w3)
                            | Some text \<Rightarrow>
                                if strings_Contains text
                                     ''duplicate key value violates unique constraint''
                                then
                                  (let (timestamp, w4) = time_Now e w3;
                                       originalName = Name file;
                                       (newID, w5) = uuid_New e w4;
                                       file = file\<lparr>Name := originalName @ ''_'' @ timestamp,
                                                   ID := newID\<rparr>;
                                       (err, w6) = db_Exec_Insert e file w5
                                   in case err of
                                        Some _ \<Rightarrow> (InsertModifiedFailed, w6)
                                      | None \<Rightarrow> (InsertedModified, w6))
                                else (InsertFailed, w3)))))"

text \<open>standaloneUpdateHandler.handleChannelMessage\<close>

definition standalone_handleChannelMessage ::
  "BotHandler \<Rightarrow> env \<Rightarrow> MessageClass \<Rightarrow> world \<Rightarrow> outcome \<times> world" where
  "standalone_handleChannelMessage h e message w =
     (case message of
        MessageOf msg \<Rightarrow>
          (case PeerID msg of
             PeerChannel channelID \<Rightarrow>
               if ourChannel h channelID
               then (case Media msg of
                       Some (MessageMediaDocument doc) \<Rightarrow>
                         standalone_processDocument h e doc channelID w
                     | _ \<Rightarrow> (NoDocument, w))
               else (Ignored, w)
           | _ \<Rightarrow> (NotChannelPeer, w))
      | _ \<Rightarrow> (MessageCastFailed, w))"

definition standalone_handleUpdate ::
  "BotHandler \<Rightarrow> env \<Rightarrow> UpdateClass \<Rightarrow> world \<Rightarrow> outcome \<times> world" where
  "standalone_handleUpdate h e update w =
     (case update of
        UpdateNewChannelMessage message \<Rightarrow> standalone_handleChannelMessage h e message w
      | _ \<Rightarrow> (UpdateSkipped, w))"

fun standalone_handleBatch ::
  "BotHandler \<Rightarrow> env \<Rightarrow> UpdateClass list \<Rightarrow> world \<Rightarrow> outcome list \<times> world" where
  "standalone_handleBatch h e [] w = ([], w)"
| "standalone_handleBatch h e (update # rest) w =
     (let (r, w1) = standalone_handleUpdate h e update w;
          (rs, w2) = standalone_handleBatch h e rest w1
      in (r # rs, w2))"

text \<open>standaloneUpdateHandler.Handle: a batch and a short update are both unpacked.\<close>

definition standalone_Handle ::
  "BotHandler \<Rightarrow> env \<Rightarrow> UpdatesClass \<Rightarrow> world \<Rightarrow> outcome list \<times> world" where
  "standalone_Handle h e updates w =
     (case updates of
        Updates us \<Rightarrow> standalone_handleBatch h e us w
      | UpdateShort u \<Rightarrow>
          (let (r, w1) = standalone_handleUpdate h e u w in ([r], w1))
      | _ \<Rightarrow> ([], w))"

section \<open>backup_2025_05_10_final/integrated_bot.go\<close>

text \<open>The switch on the lower-cased extension in integratedUpdateHandler.processDocument.\<close>

definition integrated_mimeType :: "env \<Rightarrow> string \<Rightarrow> string" where
  "integrated_mimeType e fileName =
     (let ext = filepath_Ext fileName
      in if ext \<noteq> [] then
           (let l = strings_ToLower e ext
            in if l = ''.jpg'' \<or> l = ''.jpeg'' then ''image/jpeg''
               else if l = ''.png'' then ''image/png''
               else if l = ''.gif'' then ''image/gif''
               else if l = ''.pdf'' then ''application/pdf''
               else if l = ''.mp4'' then ''video/mp4''
               else if l = ''.mp3'' then ''audio/mpeg''
               else if l = ''.txt'' then ''text/plain''
               else if l = ''.doc'' \<or> l = ''.docx'' then ''application/msword''
               else if l = ''.xls'' \<or> l = ''.xlsx'' then ''application/vnd.ms-excel''
               else if l = ''.zip'' then ''application/zip''
               else if l = ''.exe'' then ''application/x-msdownload''
               else ''application/octet-stream'')
         else ''application/octet-stream'')"

text \<open>
  The renaming done before the INSERT when a row of that name exists: timestamp and the first
  eight characters of a new id go between the base name and the extension (from the last dot
  on). \<open>uuid.New().String()\<close> has 36 characters, so the slice \<open>[:8]\<close> is \<open>take 8\<close>.
\<close>

definition integrated_uniqueName :: "string \<Rightarrow> string \<Rightarrow> string \<Rightarrow> string" where
  "integrated_uniqueName fileName timestamp uniqueID =
     (let (ext, baseName) =
            (case strings_LastIndex fileName (CHR ''.'') of
               Some idx \<Rightarrow> (drop idx fileName, take idx fileName)
             | None \<Rightarrow> ([], fileName))
      in baseName @ ''_'' @ timestamp @ ''_'' @ uniqueID @ ext)"

text \<open>
  integratedUpdateHandler.processDocument. The INSERT lists id, name, size, type, user_id,
  parent_id and mime_type (and the two timestamps): no category, status or channel_id. An
  INSERT the store accepts affects one row, so the ``no rows affected'' return is not taken.
\<close>

definition integrated_processDocument ::
  "BotHandler \<Rightarrow> env \<Rightarrow> DocumentClass \<Rightarrow> int64 \<Rightarrow> world \<Rightarrow> outcome \<times> world" where
  "integrated_processDocument h e doc channelID w =
     (case doc of
        DocumentEmpty \<Rightarrow> (DocumentCastFailed, w)
      | DocumentOf document \<Rightarrow>
          (let fileName = findFileName (Attributes document)
           in if fileName = [] then (NoFilenameAttribute, w)
              else
                (let (err, w1) = db_First e fileName 7331706161 w;
                     (fileName, w2) =
                       (if err = None then
                          (let (timestamp, wa) = time_Now e w1;
                               (u, wb) = uuid_New e wa
                           in (integrated_uniqueName fileName timestamp (take 8 u), wb))
                        else (fileName, w1));
                     size = Size document;
                     (fileID, w3) = uuid_New e w2;
                     parentIDValue = (if parentId h \<noteq> [] then Some (parentId h) else None);
                     mimeType = integrated_mimeType e fileName;
                     (err, w4) =
                       db_Exec_Insert e
                         \<lparr>ID = fileID, Name = fileName, Type = ''file'', MimeType = mimeType,
                          FileSize = size, Category = None, Encrypted = None,
                          UserId = 7331706161, Status = None, ChannelId = None,
                          ParentId = parentIDValue\<rparr> w3
                 in case err of
                      Some _ \<Rightarrow> (InsertFailed, w4)
                    | None \<Rightarrow> (Inserted, w4))))"

section \<open>backup_2025_05_10/simplebot_main.go\<close>

text \<open>The second loop over the attributes in updateHandler.processDocument.\<close>

fun simplebot_mimeType :: "env \<Rightarrow> DocumentAttributeClass list \<Rightarrow> string" where
  "simplebot_mimeType e [] = ''application/octet-stream''"
| "simplebot_mimeType e (DocumentAttributeFilename fileName # attrs) =
     (let mimeType = TypeByExtension e (filepath_Ext fileName)
      in if mimeType = [] then ''application/octet-stream'' else mimeType)"
| "simplebot_mimeType e (attr # attrs) = simplebot_mimeType e attrs"

text \<open>
  updateHandler.processDocument: up to two more INSERTs while the store answers ``duplicate
  key value''. \<open>strToPtr\<close> makes the parent a non-nil pointer whatever the string.
\<close>

definition simplebot_processDocument ::
  "BotHandler \<Rightarrow> env \<Rightarrow> DocumentClass \<Rightarrow> int64 \<Rightarrow> world \<Rightarrow> outcome \<times> world" where
  "simplebot_processDocument h e doc channelID w =
     (case doc of
        DocumentEmpty \<Rightarrow> (DocumentCastFailed, w)
      | DocumentOf document \<Rightarrow>
          (let fileName = findFileName (Attributes document)
           in if fileName = [] then (NoFilenameAttribute, w)
              else
                (let size = Size document;
                     mimeType = simplebot_mimeType e (Attributes document);
                     (fileID, w1) = uuid_New e w;
                     file = models_File fileID fileName mimeType size channelID
                              (Some (parentId h));
                     (err, w2) = db_Raw_Select1 e w1
                 in case err of
                      Some _ \<Rightarrow> (ConnectionTestFailed, w2)
                    | None \<Rightarrow>
                        (let (err, w3) = db_Exec_Insert e file w2
                         in case err of
                              None \<Rightarrow> (Inserted, w3)
                            | Some text \<Rightarrow>
                                if strings_Contains text ''duplicate key value''
                                then
                                  (let (timestamp, w4) = time_Now e w3;
                                       (u, w5) = uuid_New e w4;
                                       randomSuffix = take 8 u;
                                       newFileName =
                                         fileName @ ''_'' @ timestamp @ ''_'' @ randomSuffix;
                                       (newID, w6) = uuid_New e w5;
                                       file = file\<lparr>ID := newID, Name := newFileName\<rparr>;
                                       (err, w7) = db_Exec_Insert e file w6
                                   in case err of
                                        None \<Rightarrow> (InsertedModified, w7)
                                      | Some text \<Rightarrow>
                                          if strings_Contains text ''duplicate key value''
                                          then
                                            (let (newID, w8) = uuid_New e w7;
                                                 (u, w9) = uuid_New e w8;
                                                 randomName =
                                                   take 12 u @ ''_'' @ filepath_Base fileName;
                                                 file = file\<lparr>ID := newID,
                                                             Name := randomName\<rparr>;
                                                 (err, w10) = db_Exec_Insert e file w9
                                             in case err of
                                                  Some _ \<Rightarrow> (InsertRandomFailed, w10)
                                                | None \<Rightarrow> (InsertedRandom, w10))
                                          else (InsertModifiedFailed, w7))
                                else (InsertFailed, w3)))))"

section \<open>Concrete inputs\<close>

text \<open>
  A configuration with the channel id of the sources' own examples, a document with one
  filename attribute behind another attribute, a channel post carrying it, an empty catalog,
  and three stores: one that accepts every statement, one that answers every INSERT with a
  duplicate-key error, one that answers every INSERT with a connection error. The names used
  with these stores are ASCII, so their \<open>ToLower_Unicode\<close> is never consulted.
\<close>

definition test_uuid :: "nat \<Rightarrow> string" where
  "test_uuid n =
     (if n = 0 then ''0a0a0a0a-1111-4111-8111-000000000000''
      else if n = 1 then ''1b1b1b1b-2222-4222-8222-111111111111''
      else if n = 2 then ''2c2c2c2c-3333-4333-8333-222222222222''
      else if n = 3 then ''3d3d3d3d-4444-4444-8444-333333333333''
      else ''4e4e4e4e-5555-4555-8555-444444444444'')"

definition store_accepting :: env where
  "store_accepting =
     \<lparr>read_err = (\<lambda>n. None), insert_err = (\<lambda>n. None), uuid_String = test_uuid,
      time_Format = (\<lambda>n. ''20250510_120000''), TypeByExtension = (\<lambda>ext. []),
      ToLower_Unicode = (\<lambda>s. s)\<rparr>"

definition store_colliding :: env where
  "store_colliding =
     \<lparr>read_err = (\<lambda>n. None),
      insert_err = (\<lambda>n. Some ''ERROR: duplicate key value violates unique constraint''),
      uuid_String = test_uuid,
      time_Format = (\<lambda>n. ''20250510_120000''), TypeByExtension = (\<lambda>ext. []),
      ToLower_Unicode = (\<lambda>s. s)\<rparr>"

definition store_unreachable :: env where
  "store_unreachable =
     \<lparr>read_err = (\<lambda>n. None),
      insert_err = (\<lambda>n. Some ''connection refused''),
      uuid_String = test_uuid,
      time_Format = (\<lambda>n. ''20250510_120000''), TypeByExtension = (\<lambda>ext. []),
      ToLower_Unicode = (\<lambda>s. s)\<rparr>"

definition empty_world :: world where
  "empty_world = \<lparr>files = [], execs = [], reads = 0, uuids = 0, clock = 0\<rparr>"

text \<open>
  The catalog after the integrated handler has stored \<open>report.pdf\<close> once: the next document of
  that name finds a row with its name.
\<close>

definition catalog_with_report :: world where
  "catalog_with_report =
     \<lparr>files = [\<lparr>ID = ''0a0a0a0a-1111-4111-8111-000000000000'', Name = ''report.pdf'',
                Type = ''file'', MimeType = ''application/pdf'', FileSize = 1024,
                Category = None, Encrypted = None, UserId = 7331706161, Status = None,
                ChannelId = None,
                ParentId = Some ''0196a580-e141-70f1-b269-b8846e881142''\<rparr>],
      execs = [\<lparr>ID = ''0a0a0a0a-1111-4111-8111-000000000000'', Name = ''report.pdf'',
                Type = ''file'', MimeType = ''application/pdf'', FileSize = 1024,
                Category = None, Encrypted = None, UserId = 7331706161, Status = None,
                ChannelId = None,
                ParentId = Some ''0196a580-e141-70f1-b269-b8846e881142''\<rparr>],
      reads = 1, uuids = 1, clock = 0\<rparr>"

definition test_document :: "string \<Rightarrow> Document" where
  "test_document fileName =
     \<lparr>Size = 1024,
      Attributes = [DocumentAttributeImageSize, DocumentAttributeFilename fileName]\<rparr>"

definition channel_post :: "int64 \<Rightarrow> Document \<Rightarrow> Message" where
  "channel_post c d =
     \<lparr>PeerID = PeerChannel c, Media = Some (MessageMediaDocument (DocumentOf d))\<rparr>"

definition test_handler :: BotHandler where
  "test_handler =
     \<lparr>botToken = ''123456:token'', channelId = - 1002523726746,
      parentId = ''0196a580-e141-70f1-b269-b8846e881142''\<rparr>"

section \<open>Properties\<close>

text \<open>
  Claim C1. Normalising the configured form of an internal id gives the id back. A valid
  broadcast-class id is an \<open>x > 0\<close> whose configured form is the \<open>int64\<close> value
  \<open>-(10^12 + x)\<close> (no wrap-around: \<open>x\<close> is at most \<open>2^63 - 10^12\<close>); a valid legacy-class
  id is an \<open>x > 0\<close> whose configured form is the \<open>int64\<close> value \<open>-(10^6 + x)\<close> and lies in
  the legacy range, not below \<open>-10^12\<close> (\<open>x\<close> is at most \<open>10^12 - 10^6\<close>). For both the
  handlers' threshold mapping returns \<open>x\<close>, and for the first the conversion of a positive
  id in cmd/run.go is the broadcast form.
\<close>

theorem normalize_denormalize_roundtrip:
  "(0 < sint x \<and> sint (denormalize x Broadcast) = - (1000000000000 + sint x) \<longrightarrow>
      actualConfiguredChannelID (denormalize x Broadcast) = x \<and>
      runApplication_actualChannelID x = denormalize x Broadcast) \<and>
   (0 < sint x \<and> sint (denormalize x Legacy) = - (1000000 + sint x) \<and>
    - 1000000000000 \<le> sint (denormalize x Legacy) \<longrightarrow>
      actualConfiguredChannelID (denormalize x Legacy) = x)"
proof (intro conjI impI)
  assume h: "0 < sint x \<and> sint (denormalize x Broadcast) = - (1000000000000 + sint x)"
  then have "sint (denormalize x Broadcast) < - 1000000000000"
    by simp
  then have "actualConfiguredChannelID (denormalize x Broadcast)
               = - denormalize x Broadcast - 1000000000000"
    by (simp add: actualConfiguredChannelID_def word_sless_alt)
  then show "actualConfiguredChannelID (denormalize x Broadcast) = x"
    by (simp add: denormalize_def)
  from h show "runApplication_actualChannelID x = denormalize x Broadcast"
    by (simp add: runApplication_actualChannelID_def denormalize_def word_sless_alt)
next
  assume h: "0 < sint x \<and> sint (denormalize x Legacy) = - (1000000 + sint x) \<and>
             - 1000000000000 \<le> sint (denormalize x Legacy)"
  then have "sint (denormalize x Legacy) < - 1000000"
        and "\<not> sint (denormalize x Legacy) < - 1000000000000"
    by simp_all
  then have "actualConfiguredChannelID (denormalize x Legacy)
               = - denormalize x Legacy - 1000000"
    by (simp add: actualConfiguredChannelID_def word_sless_alt)
  then show "actualConfiguredChannelID (denormalize x Legacy) = x"
    by (simp add: denormalize_def)
qed

theorem normalize_denormalize_roundtrip_witness:
  "actualConfiguredChannelID (denormalize 2523726746 Broadcast) = 2523726746 \<and>
   runApplication_actualChannelID 2523726746 = denormalize 2523726746 Broadcast \<and>
   actualConfiguredChannelID (denormalize 2523726746 Legacy) = 2523726746"
proof -
  have 1: "0 < sint (2523726746::int64) \<and>
           sint (denormalize 2523726746 Broadcast)
             = - (1000000000000 + sint (2523726746::int64))"
    by (simp add: denormalize_def)
  have 2: "0 < sint (2523726746::int64) \<and>
           sint (denormalize 2523726746 Legacy) = - (1000000 + sint (2523726746::int64)) \<and>
           - 1000000000000 \<le> sint (denormalize 2523726746 Legacy)"
    by (simp add: denormalize_def)
  from normalize_denormalize_roundtrip [of 2523726746] 1 2 show ?thesis
    by blast
qed

text \<open>
  The bounds are those of the ranges: the configured forms are exact up to
  \<open>x = 2^63 - 10^12\<close>, and a legacy form of an \<open>x\<close> above \<open>10^12 - 10^6\<close> falls into the
  broadcast range, where the mapping subtracts \<open>10^12\<close>.
\<close>

lemma denormalize_broadcast_exact:
  assumes "0 < sint (x::int64)" and "sint x \<le> 9223371036854775808"
  shows "sint (denormalize x Broadcast) = - (1000000000000 + sint x)"
  using assms
  by (simp add: denormalize_def sint_word_ariths signed_take_bit_int_eq_self_iff)

lemma denormalize_legacy_exact:
  assumes "0 < sint (x::int64)" and "sint x \<le> 999999000000"
  shows "sint (denormalize x Legacy) = - (1000000 + sint x) \<and>
         - 1000000000000 \<le> sint (denormalize x Legacy)"
proof -
  from assms have "sint (denormalize x Legacy) = - (1000000 + sint x)"
    by (simp add: denormalize_def sint_word_ariths signed_take_bit_int_eq_self_iff)
  with assms show ?thesis by simp
qed

lemma legacy_form_in_broadcast_range:
  "actualConfiguredChannelID (denormalize 999999000001 Legacy) = 1"
  by (simp add: denormalize_def actualConfiguredChannelID_def word_sless_alt)

subsection \<open>The channel filter\<close>

text \<open>
  Claim C2. A channel message whose peer carries an id in the internal encoding (a positive
  id) that is not the normalised form of the configured id is dropped by both handlers: the
  outcome is \<open>Ignored\<close> and the world is unchanged, so no INSERT is sent and the catalog
  keeps its rows. The handlers also accept a ``direct'' match with the configured id as
  given, which for a positive id is its own normalised form.
\<close>

theorem unmatched_channel_dropped:
  assumes "PeerID msg = PeerChannel channelID"
      and "0 < sint channelID"
      and "channelID \<noteq> actualConfiguredChannelID (channelId h)"
  shows "bot_handleUpdate h e (UpdateNewChannelMessage (MessageOf msg)) w = (Ignored, w) \<and>
         standalone_handleChannelMessage h e (MessageOf msg) w = (Ignored, w)"
proof -
  have "channelID \<noteq> channelId h"
  proof
    assume eq: "channelID = channelId h"
    with assms(2) have "0 < sint (channelId h)" by simp
    then have "actualConfiguredChannelID (channelId h) = channelId h"
      by (simp add: actualConfiguredChannelID_def word_sless_alt)
    with assms(3) eq show False by simp
  qed
  with assms(1,3) show ?thesis
    by (simp add: bot_handleUpdate_def standalone_handleChannelMessage_def ourChannel_def)
qed

theorem unmatched_channel_dropped_witness:
  "bot_handleUpdate test_handler store_accepting
     (UpdateNewChannelMessage (MessageOf (channel_post 777 (test_document ''a.txt''))))
     empty_world = (Ignored, empty_world) \<and>
   standalone_handleChannelMessage test_handler store_accepting
     (MessageOf (channel_post 777 (test_document ''a.txt''))) empty_world
     = (Ignored, empty_world)"
proof -
  have 1: "PeerID (channel_post 777 (test_document ''a.txt'')) = PeerChannel 777"
    by (simp add: channel_post_def)
  have 2: "0 < sint (777::int64)"
    by simp
  have 3: "(777::int64) \<noteq> actualConfiguredChannelID (channelId test_handler)"
    by (simp add: test_handler_def actualConfiguredChannelID_def word_sless_alt)
  from unmatched_channel_dropped [OF 1 2 3] show ?thesis .
qed

text \<open>
  Without the direct match nothing else is accepted: an id equal neither to the configured
  id nor to its normalised form is dropped whatever its sign. The direct match itself only
  shows on an id outside the internal encoding: with \<open>-1002523726746\<close> configured, a peer
  carrying \<open>-1002523726746\<close> is accepted although the normalised form is \<open>2523726746\<close>.
\<close>

lemma unmatched_channel_dropped_any_sign:
  assumes "PeerID msg = PeerChannel channelID"
      and "channelID \<noteq> channelId h"
      and "channelID \<noteq> actualConfiguredChannelID (channelId h)"
  shows "bot_handleUpdate h e (UpdateNewChannelMessage (MessageOf msg)) w = (Ignored, w) \<and>
         standalone_handleChannelMessage h e (MessageOf msg) w = (Ignored, w)"
  using assms
  by (simp add: bot_handleUpdate_def standalone_handleChannelMessage_def ourChannel_def)

lemma direct_match_on_configured_form:
  "- 1002523726746 \<noteq> actualConfiguredChannelID (channelId test_handler) \<and>
   map Name (execs (snd (standalone_handleChannelMessage test_handler store_accepting
      (MessageOf (channel_post (- 1002523726746) (test_document ''a.txt''))) empty_world)))
     = [''a.txt''] \<and>
   map Name (execs (snd (bot_handleUpdate test_handler store_accepting
      (UpdateNewChannelMessage
         (MessageOf (channel_post (- 1002523726746) (test_document ''a.txt''))))
      empty_world)))
     = [''a.txt'']"
  by (simp add: standalone_handleChannelMessage_def bot_handleUpdate_def ourChannel_def
      bot_handleNewMessage_def standalone_processDocument_def test_handler_def
      store_accepting_def channel_post_def test_document_def empty_world_def
      actualConfiguredChannelID_def word_sless_alt models_File_def
      uuid_New_def db_Raw_Select1_def db_Exec_Insert_def Let_def)



subsection \<open>The dispatcher\<close>

lemma standalone_handleBatch_append:
  "standalone_handleBatch h e (us @ vs) w =
     (let (rs, w1) = standalone_handleBatch h e us w;
          (rs', w2) = standalone_handleBatch h e vs w1
      in (rs @ rs', w2))"
  by (induction us arbitrary: w) (simp_all add: Let_def split: prod.splits)

lemma bot_handleBatch_append:
  "bot_handleBatch h e (us @ vs) w =
     (let (rs, w1) = bot_handleBatch h e us w;
          (rs', w2) = bot_handleBatch h e vs w1
      in (rs @ rs', w2))"
  by (induction us arbitrary: w) (simp_all add: Let_def split: prod.splits)

text \<open>
  Claim C7, as amended. The standalone handler unpacks both shapes: a short update is
  handled exactly as the batch holding that one update, a batch is handled update by update
  in its order, and a document message from the bound channel reaches processDocument from
  either shape. The web-interface bot handler unpacks a batch in the same way (the message
  reaches handleNewMessage) and does nothing on a short update. In both handlers a too-long
  notification changes nothing, and inside a batch an update that is no new channel message,
  or whose message is a service message, changes nothing. As stated, for both handlers, the
  claim fails on the bot handler; the example after the theorem shows it.
\<close>

theorem dispatcher_shapes:
  "standalone_Handle h e (UpdateShort u) w = standalone_Handle h e (Updates [u]) w \<and>
   standalone_Handle h e (Updates (us @ vs)) w =
     (let (rs, w1) = standalone_Handle h e (Updates us) w;
          (rs', w2) = standalone_Handle h e (Updates vs) w1
      in (rs @ rs', w2)) \<and>
   bot_Handle h e (Updates (us @ vs)) w =
     (let (rs, w1) = bot_Handle h e (Updates us) w;
          (rs', w2) = bot_Handle h e (Updates vs) w1
      in (rs @ rs', w2)) \<and>
   (ourChannel h c \<longrightarrow>
      standalone_Handle h e
        (UpdateShort (UpdateNewChannelMessage
           (MessageOf \<lparr>PeerID = PeerChannel c, Media = Some (MessageMediaDocument doc)\<rparr>))) w
        = ([fst (standalone_processDocument h e doc c w)],
           snd (standalone_processDocument h e doc c w)) \<and>
      bot_Handle h e
        (Updates [UpdateNewChannelMessage
           (MessageOf \<lparr>PeerID = PeerChannel c, Media = Some (MessageMediaDocument doc)\<rparr>)]) w
        = ([fst (bot_handleNewMessage h e
                   (MessageOf \<lparr>PeerID = PeerChannel c,
                               Media = Some (MessageMediaDocument doc)\<rparr>) w)],
           snd (bot_handleNewMessage h e
                   (MessageOf \<lparr>PeerID = PeerChannel c,
                               Media = Some (MessageMediaDocument doc)\<rparr>) w))) \<and>
   bot_Handle h e (UpdateShort u) w = ([], w) \<and>
   standalone_Handle h e UpdatesTooLong w = ([], w) \<and>
   bot_Handle h e UpdatesTooLong w = ([], w) \<and>
   standalone_handleUpdate h e UpdateOther w = (UpdateSkipped, w) \<and>
   bot_handleUpdate h e UpdateOther w = (UpdateSkipped, w) \<and>
   standalone_handleUpdate h e (UpdateNewChannelMessage MessageService) w
     = (MessageCastFailed, w) \<and>
   bot_handleUpdate h e (UpdateNewChannelMessage MessageService) w
     = (MessageCastFailed, w)"
  by (simp add: standalone_Handle_def bot_Handle_def standalone_handleUpdate_def
      bot_handleUpdate_def standalone_handleChannelMessage_def
      standalone_handleBatch_append bot_handleBatch_append
      split: prod.splits)

theorem dispatcher_shapes_witness:
  "standalone_Handle test_handler store_accepting
     (UpdateShort (UpdateNewChannelMessage
        (MessageOf \<lparr>PeerID = PeerChannel 2523726746,
           Media = Some (MessageMediaDocument (DocumentOf (test_document ''a.txt'')))\<rparr>)))
     empty_world
     = ([fst (standalone_processDocument test_handler store_accepting
                (DocumentOf (test_document ''a.txt'')) 2523726746 empty_world)],
        snd (standalone_processDocument test_handler store_accepting
                (DocumentOf (test_document ''a.txt'')) 2523726746 empty_world))"
proof -
  have "ourChannel test_handler 2523726746"
    by (simp add: ourChannel_def test_handler_def actualConfiguredChannelID_def
        word_sless_alt)
  with dispatcher_shapes
         [where h = test_handler and e = store_accepting and w = empty_world
            and c = 2523726746 and doc = "DocumentOf (test_document ''a.txt'')"]
  show ?thesis by blast
qed

text \<open>
  The same post from the bound channel, once inside a short update and once inside a batch:
  the bot handler sends no INSERT for the first and creates the row for the second.
\<close>

theorem short_update_counterexample:
  "bot_Handle test_handler store_accepting
     (UpdateShort (UpdateNewChannelMessage
        (MessageOf (channel_post 2523726746 (test_document ''a.txt'')))))
     empty_world = ([], empty_world) \<and>
   map Name (files (snd (bot_Handle test_handler store_accepting
     (Updates [UpdateNewChannelMessage
        (MessageOf (channel_post 2523726746 (test_document ''a.txt'')))])
     empty_world))) = [''a.txt'']"
  by (simp add: bot_Handle_def bot_handleUpdate_def bot_handleNewMessage_def ourChannel_def
      test_handler_def store_accepting_def channel_post_def models_File_def
      test_document_def empty_world_def actualConfiguredChannelID_def word_sless_alt
      uuid_New_def db_Raw_Select1_def db_Exec_Insert_def Let_def)

subsection \<open>Configured ids outside both ranges\<close>

text \<open>
  Claim C4, as amended. For a configured id outside both ranges (not below \<open>-10^6\<close>: zero,
  positive, or negative of magnitude at most \<open>10^6\<close>) the mapping returns the id as it is,
  and the filter accepts exactly the messages whose channel id equals it. No error is
  raised for such an id; of the configuration, BotHandler.Start refuses only an empty token
  and the id 0. As stated, with a failure for every such id, the claim fails; the
  example after the theorem shows it.
\<close>

theorem out_of_range_id_passes_through:
  assumes "- 1000000 \<le> sint (channelId h)"
  shows "actualConfiguredChannelID (channelId h) = channelId h \<and>
         (ourChannel h c \<longleftrightarrow> c = channelId h) \<and>
         (BotHandler_Start_validate h = None \<longleftrightarrow> botToken h \<noteq> [] \<and> channelId h \<noteq> 0)"
  using assms
  by (auto simp add: actualConfiguredChannelID_def ourChannel_def
      BotHandler_Start_validate_def word_sless_alt)

theorem out_of_range_id_passes_through_witness:
  "actualConfiguredChannelID 5 = 5 \<and>
   ourChannel (test_handler\<lparr>channelId := 5\<rparr>) 5 \<and>
   BotHandler_Start_validate (test_handler\<lparr>channelId := 5\<rparr>) = None"
  using out_of_range_id_passes_through [of "test_handler\<lparr>channelId := 5\<rparr>" 5]
  by (simp add: test_handler_def)

text \<open>
  With the positive id 5 configured, Start's checks pass, the id is used for the comparison
  as it is, and a post from channel 5 is written to the catalog.
\<close>

theorem unsupported_id_counterexample:
  "BotHandler_Start_validate (test_handler\<lparr>channelId := 5\<rparr>) = None \<and>
   actualConfiguredChannelID 5 = 5 \<and>
   map Name (files (snd (standalone_handleChannelMessage (test_handler\<lparr>channelId := 5\<rparr>)
      store_accepting (MessageOf (channel_post 5 (test_document ''a.txt''))) empty_world)))
     = [''a.txt'']"
  by (simp add: BotHandler_Start_validate_def standalone_handleChannelMessage_def
      ourChannel_def standalone_processDocument_def test_handler_def store_accepting_def channel_post_def
      test_document_def empty_world_def actualConfiguredChannelID_def word_sless_alt
      models_File_def uuid_New_def db_Raw_Select1_def db_Exec_Insert_def Let_def)

subsection \<open>Documents without a filename\<close>

lemma findFileName_none:
  "\<forall>a \<in> set attrs. \<forall>n. a \<noteq> DocumentAttributeFilename n \<Longrightarrow> findFileName attrs = []"
  by (induction attrs rule: findFileName.induct) auto

text \<open>
  Claim C8. A message from the bound channel whose media is a document with no filename
  attribute among its attributes ends in both handlers at ``Document has no filename
  attribute'' (the specification's MissingFilename) with the world unchanged: no INSERT is
  sent and no row is created.
\<close>

theorem missing_filename_creates_nothing:
  assumes "\<forall>a \<in> set (Attributes d). \<forall>n. a \<noteq> DocumentAttributeFilename n"
      and "channelID = channelId h \<or> channelID = actualConfiguredChannelID (channelId h)"
      and "msg = \<lparr>PeerID = PeerChannel channelID,
                  Media = Some (MessageMediaDocument (DocumentOf d))\<rparr>"
  shows "bot_handleUpdate h e (UpdateNewChannelMessage (MessageOf msg)) w
           = (NoFilenameAttribute, w) \<and>
         standalone_handleChannelMessage h e (MessageOf msg) w = (NoFilenameAttribute, w)"
  using assms(2,3) findFileName_none [OF assms(1)]
  by (auto simp add: bot_handleUpdate_def bot_handleNewMessage_def ourChannel_def
      standalone_handleChannelMessage_def standalone_processDocument_def)

theorem missing_filename_creates_nothing_witness:
  "bot_handleUpdate test_handler store_accepting
     (UpdateNewChannelMessage (MessageOf \<lparr>PeerID = PeerChannel 2523726746,
        Media = Some (MessageMediaDocument (DocumentOf
          \<lparr>Size = 1024, Attributes = [DocumentAttributeImageSize, DocumentAttributeVideo]\<rparr>))\<rparr>))
     empty_world
     = (NoFilenameAttribute, empty_world) \<and>
   standalone_handleChannelMessage test_handler store_accepting
     (MessageOf \<lparr>PeerID = PeerChannel 2523726746,
        Media = Some (MessageMediaDocument (DocumentOf
          \<lparr>Size = 1024, Attributes = [DocumentAttributeImageSize, DocumentAttributeVideo]\<rparr>))\<rparr>)
     empty_world
     = (NoFilenameAttribute, empty_world)"
proof -
  have 1: "\<forall>a \<in> set (Attributes
              \<lparr>Size = 1024, Attributes = [DocumentAttributeImageSize, DocumentAttributeVideo]\<rparr>).
             \<forall>n. a \<noteq> DocumentAttributeFilename n"
    by simp
  have 2: "(2523726746::int64) = channelId test_handler \<or>
           2523726746 = actualConfiguredChannelID (channelId test_handler)"
    by (simp add: test_handler_def actualConfiguredChannelID_def word_sless_alt)
  from missing_filename_creates_nothing [OF 1 2 refl] show ?thesis .
qed

subsection \<open>The catalog writer\<close>

lemmas store_calls =
  uuid_New_def time_Now_def db_Raw_Select1_def db_Exec_Insert_def db_First_def

lemmas test_inputs =
  test_handler_def test_document_def empty_world_def test_uuid_def

lemma plus_numerals:
  "n + 1 = Suc n" "n + 2 = Suc (Suc n)" "n + 3 = Suc (Suc (Suc n))"
  "n + 4 = Suc (Suc (Suc (Suc n)))"
  by simp_all

lemma strings_Contains_append:
  "strings_Contains s (a @ b) \<Longrightarrow> strings_Contains s a"
  by (induction s) (auto simp: prefix_def)

lemma files_empty_world: "files empty_world = []"
  by (simp add: empty_world_def)

lemma execs_empty_world: "execs empty_world = []"
  by (simp add: empty_world_def)


lemma standalone_example:
  "standalone_processDocument test_handler store_accepting
     (DocumentOf (test_document ''report.pdf'')) 2523726746 empty_world =
   (Inserted,
    \<lparr>files = [models_File ''0a0a0a0a-1111-4111-8111-000000000000'' ''report.pdf''
                ''application/octet-stream'' 1024 2523726746 None],
     execs = [models_File ''0a0a0a0a-1111-4111-8111-000000000000'' ''report.pdf''
                ''application/octet-stream'' 1024 2523726746 None],
     reads = 1, uuids = 1, clock = 0\<rparr>)"
  by (simp add: standalone_processDocument_def store_calls store_accepting_def test_inputs
      Let_def)


lemma standalone_unreachable_example:
  "standalone_processDocument test_handler store_unreachable
     (DocumentOf (test_document ''a.txt'')) 2523726746 empty_world =
   (InsertFailed,
    \<lparr>files = [],
     execs = [models_File ''0a0a0a0a-1111-4111-8111-000000000000'' ''a.txt''
                ''application/octet-stream'' 1024 2523726746 None],
     reads = 1, uuids = 1, clock = 0\<rparr>)"
  by (simp add: standalone_processDocument_def store_calls store_unreachable_def test_inputs
      Let_def)

lemma simplebot_unreachable_example:
  "simplebot_processDocument test_handler store_unreachable
     (DocumentOf (test_document ''a.txt'')) 2523726746 empty_world =
   (InsertFailed,
    \<lparr>files = [],
     execs = [models_File ''0a0a0a0a-1111-4111-8111-000000000000'' ''a.txt''
                ''application/octet-stream'' 1024 2523726746
                (Some ''0196a580-e141-70f1-b269-b8846e881142'')],
     reads = 1, uuids = 1, clock = 0\<rparr>)"
  by (simp add: simplebot_processDocument_def store_calls store_unreachable_def test_inputs
      filepath_Ext_def Let_def)

text \<open>
  Claim C3, as amended. When the store answers the first INSERT with a duplicate-key error,
  the writer retries at most twice. The first retry sends the same row with a new id and
  with the timestamp (in simplebot_main.go also eight characters of a new id) appended
  after the whole original name, extension included. The standalone handler stops there
  whatever the store answers. The simplebot handler, when the store reports a duplicate key
  again, sends the row a third time with another new id and with twelve characters of a new
  id put before the last path element of the original name; when that fails too, it returns
  \<open>InsertRandomFailed\<close> with the catalog as it was and nothing more sent. As stated (the
  extension kept, two retries in both handlers) the claim fails; the example after the
  theorem shows it.
\<close>

theorem collision_retry_policy:
  assumes "findFileName (Attributes d) = fileName" and "fileName \<noteq> []"
      and "read_err e (reads w) = None"
      and "insert_err e (length (execs w)) = Some t0"
      and "strings_Contains t0 ''duplicate key value violates unique constraint''"
  shows
    "(let f = models_File (uuid_String e (uuids w)) fileName ''application/octet-stream''
                (Size d) c None;
          retry1 = f\<lparr>Name := fileName @ ''_'' @ time_Format e (clock w),
                      ID := uuid_String e (uuids w + 1)\<rparr>;
          r = standalone_processDocument h e (DocumentOf d) c w
      in execs (snd r) = execs w @ [f, retry1] \<and>
         (insert_err e (length (execs w) + 1) \<noteq> None \<longrightarrow>
            r = (InsertModifiedFailed,
                 w\<lparr>reads := reads w + 1, clock := clock w + 1, uuids := uuids w + 2,
                   execs := execs w @ [f, retry1]\<rparr>))) \<and>
     (let f = models_File (uuid_String e (uuids w)) fileName
                (simplebot_mimeType e (Attributes d)) (Size d) c (Some (parentId h));
          retry1 = f\<lparr>ID := uuid_String e (uuids w + 2),
                      Name := fileName @ ''_'' @ time_Format e (clock w) @ ''_''
                                @ take 8 (uuid_String e (uuids w + 1))\<rparr>;
          retry2 = f\<lparr>ID := uuid_String e (uuids w + 3),
                      Name := take 12 (uuid_String e (uuids w + 4)) @ ''_''
                                @ filepath_Base fileName\<rparr>;
          again = (\<exists>t1. insert_err e (length (execs w) + 1) = Some t1 \<and>
                         strings_Contains t1 ''duplicate key value'');
          r = simplebot_processDocument h e (DocumentOf d) c w
      in execs (snd r) = execs w @ (if again then [f, retry1, retry2] else [f, retry1]) \<and>
         (again \<and> insert_err e (length (execs w) + 2) \<noteq> None \<longrightarrow>
            r = (InsertRandomFailed,
                 w\<lparr>reads := reads w + 1, clock := clock w + 1, uuids := uuids w + 5,
                   execs := execs w @ [f, retry1, retry2]\<rparr>)))"
proof -
  have dup: "strings_Contains t0 ''duplicate key value''"
    using strings_Contains_append
            [of t0 "''duplicate key value''" "'' violates unique constraint''"] assms(5)
    by simp
  show ?thesis
  proof (cases "insert_err e (Suc (length (execs w)))")
    case None
    with assms dup show ?thesis
      by (simp add: standalone_processDocument_def simplebot_processDocument_def
          store_calls Let_def plus_numerals models_File_def)
  next
    case (Some t1)
    show ?thesis
    proof (cases "strings_Contains t1 ''duplicate key value''")
      case True
      with Some assms dup show ?thesis
        by (simp add: standalone_processDocument_def simplebot_processDocument_def
            store_calls Let_def plus_numerals models_File_def split: option.splits)
    next
      case False
      with Some assms dup show ?thesis
        by (simp add: standalone_processDocument_def simplebot_processDocument_def
            store_calls Let_def plus_numerals models_File_def)
    qed
  qed
qed

theorem collision_retry_policy_witness:
  "standalone_processDocument test_handler store_colliding
      (DocumentOf (test_document ''x.txt'')) 2523726746 empty_world
     = (InsertModifiedFailed,
        \<lparr>files = [],
         execs = [models_File (test_uuid 0) ''x.txt'' ''application/octet-stream'' 1024
                    2523726746 None,
                  models_File (test_uuid 1) ''x.txt_20250510_120000''
                    ''application/octet-stream'' 1024 2523726746 None],
         reads = 1, uuids = 2, clock = 1\<rparr>) \<and>
   simplebot_processDocument test_handler store_colliding
      (DocumentOf (test_document ''x.txt'')) 2523726746 empty_world
     = (InsertRandomFailed,
        \<lparr>files = [],
         execs = [models_File (test_uuid 0) ''x.txt'' ''application/octet-stream'' 1024
                    2523726746 (Some (parentId test_handler)),
                  models_File (test_uuid 2) ''x.txt_20250510_120000_1b1b1b1b''
                    ''application/octet-stream'' 1024 2523726746
                    (Some (parentId test_handler)),
                  models_File (test_uuid 3) ''4e4e4e4e-555_x.txt''
                    ''application/octet-stream'' 1024 2523726746
                    (Some (parentId test_handler))],
         reads = 1, uuids = 5, clock = 1\<rparr>)"
proof -
  have 1: "findFileName (Attributes (test_document ''x.txt'')) = ''x.txt''"
    by (simp add: test_document_def)
  have 2: "''x.txt'' \<noteq> []"
    by simp
  have 3: "read_err store_colliding (reads empty_world) = None"
    by (simp add: store_colliding_def)
  have 4: "insert_err store_colliding (length (execs empty_world))
             = Some ''ERROR: duplicate key value violates unique constraint''"
    by (simp add: store_colliding_def)
  have 5: "strings_Contains ''ERROR: duplicate key value violates unique constraint''
             ''duplicate key value violates unique constraint''"
    by simp
  have 6: "(\<exists>t1. insert_err store_colliding (length (execs empty_world) + 1) = Some t1 \<and>
                 strings_Contains t1 ''duplicate key value'') = True"
    by (simp add: store_colliding_def)
  have 7: "insert_err store_colliding (length (execs empty_world) + 1) \<noteq> None"
          "insert_err store_colliding (length (execs empty_world) + 2) \<noteq> None"
    by (simp_all add: store_colliding_def)
  have 8: "uuid_String store_colliding = test_uuid"
          "time_Format store_colliding = (\<lambda>n. ''20250510_120000'')"
          "simplebot_mimeType store_colliding (Attributes (test_document ''x.txt''))
             = ''application/octet-stream''"
          "filepath_Base ''x.txt'' = ''x.txt''"
          "Size (test_document ''x.txt'') = 1024"
    by (simp_all add: store_colliding_def test_document_def filepath_Ext_def
        filepath_Base_def)
  from collision_retry_policy [OF 1 2 3 4 5, where h = test_handler and c = 2523726746] 7
  show ?thesis
    unfolding 6 Let_def 8
    by (simp add: empty_world_def models_File_def test_uuid_def)
qed

text \<open>
  Against a store that answers every INSERT with a duplicate-key error, for the name
  \<open>x.txt\<close>: the first retry of the simplebot handler carries a name whose extension is no
  longer \<open>.txt\<close>, and the standalone handler sends two INSERTs and no third.
\<close>

theorem collision_retry_counterexample:
  "map (\<lambda>f. filepath_Ext (Name f))
      (execs (snd (simplebot_processDocument test_handler store_colliding
         (DocumentOf (test_document ''x.txt'')) 2523726746 empty_world)))
     = [''.txt'', ''.txt_20250510_120000_1b1b1b1b'', ''.txt''] \<and>
   insert_err store_colliding 1
     = Some ''ERROR: duplicate key value violates unique constraint'' \<and>
   length (execs (snd (standalone_processDocument test_handler store_colliding
      (DocumentOf (test_document ''x.txt'')) 2523726746 empty_world))) = 2"
  by (simp add: simplebot_processDocument_def standalone_processDocument_def store_calls
      store_colliding_def test_inputs models_File_def filepath_Ext_def filepath_Base_def
      Let_def)

text \<open>
  Claim C9. An INSERT sent by the writer that the store answers with an error other than a
  duplicate-key error is the last one sent for that message, whether it is the first attempt
  or a retry: the handler returns with one of its ``failed to insert'' outcomes and the
  catalog holds the rows it held before. (The standalone handler recognises a duplicate key
  by ``duplicate key value violates unique constraint'' in the error text, the simplebot
  handler by ``duplicate key value''.)
\<close>

theorem non_collision_error_no_retry:
  assumes "length (execs w) \<le> k" and "insert_err e k = Some text"
  shows "(k < length (execs (snd (standalone_processDocument h e doc c w))) \<and>
          \<not> strings_Contains text ''duplicate key value violates unique constraint'' \<longrightarrow>
            Suc k = length (execs (snd (standalone_processDocument h e doc c w))) \<and>
            files (snd (standalone_processDocument h e doc c w)) = files w \<and>
            fst (standalone_processDocument h e doc c w) \<in> {InsertFailed, InsertModifiedFailed}) \<and>
         (k < length (execs (snd (simplebot_processDocument h e doc c w))) \<and>
          \<not> strings_Contains text ''duplicate key value'' \<longrightarrow>
            Suc k = length (execs (snd (simplebot_processDocument h e doc c w))) \<and>
            files (snd (simplebot_processDocument h e doc c w)) = files w \<and>
            fst (simplebot_processDocument h e doc c w)
              \<in> {InsertFailed, InsertModifiedFailed, InsertRandomFailed})"
proof (intro conjI)
  show "k < length (execs (snd (standalone_processDocument h e doc c w))) \<and>
          \<not> strings_Contains text ''duplicate key value violates unique constraint'' \<longrightarrow>
            Suc k = length (execs (snd (standalone_processDocument h e doc c w))) \<and>
            files (snd (standalone_processDocument h e doc c w)) = files w \<and>
            fst (standalone_processDocument h e doc c w) \<in> {InsertFailed, InsertModifiedFailed}"
    using assms
    by (auto simp add: standalone_processDocument_def store_calls Let_def less_Suc_eq
        split: DocumentClass.splits option.splits if_splits)
next
  show "k < length (execs (snd (simplebot_processDocument h e doc c w))) \<and>
          \<not> strings_Contains text ''duplicate key value'' \<longrightarrow>
            Suc k = length (execs (snd (simplebot_processDocument h e doc c w))) \<and>
            files (snd (simplebot_processDocument h e doc c w)) = files w \<and>
            fst (simplebot_processDocument h e doc c w)
              \<in> {InsertFailed, InsertModifiedFailed, InsertRandomFailed}"
    using assms
    by (auto simp add: simplebot_processDocument_def store_calls Let_def less_Suc_eq
        split: DocumentClass.splits option.splits if_splits)
qed

theorem non_collision_error_no_retry_witness:
  "Suc 0 = length (execs (snd (standalone_processDocument test_handler store_unreachable
      (DocumentOf (test_document ''a.txt'')) 2523726746 empty_world))) \<and>
   files (snd (standalone_processDocument test_handler store_unreachable
      (DocumentOf (test_document ''a.txt'')) 2523726746 empty_world)) = files empty_world \<and>
   Suc 0 = length (execs (snd (simplebot_processDocument test_handler store_unreachable
      (DocumentOf (test_document ''a.txt'')) 2523726746 empty_world))) \<and>
   files (snd (simplebot_processDocument test_handler store_unreachable
      (DocumentOf (test_document ''a.txt'')) 2523726746 empty_world)) = files empty_world"
proof -
  have 1: "length (execs empty_world) \<le> 0"
    by (simp add: execs_empty_world)
  have 2: "insert_err store_unreachable 0 = Some ''connection refused''"
    by (simp add: store_unreachable_def)
  have 3: "0 < length (execs (snd (standalone_processDocument test_handler store_unreachable
              (DocumentOf (test_document ''a.txt'')) 2523726746 empty_world))) \<and>
           \<not> strings_Contains ''connection refused''
               ''duplicate key value violates unique constraint''"
    by (simp add: standalone_unreachable_example)
  have 4: "0 < length (execs (snd (simplebot_processDocument test_handler store_unreachable
              (DocumentOf (test_document ''a.txt'')) 2523726746 empty_world))) \<and>
           \<not> strings_Contains ''connection refused'' ''duplicate key value''"
    by (simp add: simplebot_unreachable_example)
  from non_collision_error_no_retry
         [OF 1 2, where h = test_handler and doc = "DocumentOf (test_document ''a.txt'')"
            and c = 2523726746] 3 4
  show ?thesis by blast
qed

subsection \<open>MIME type and fields of a stored row\<close>

text \<open>
  \<open>filepath.Ext\<close> looks only at what follows the last dot or slash, so text put before a
  suffix that holds one does not change it, and a name without a dot has no extension.
\<close>

lemma filepath_Ext_append_sep:
  assumes "\<exists>c \<in> set ys. c = CHR ''.'' \<or> c = CHR ''/''"
  shows "filepath_Ext (xs @ ys) = filepath_Ext ys"
proof -
  from assms have "\<exists>c \<in> set (rev ys). \<not> (c \<noteq> CHR ''.'' \<and> c \<noteq> CHR ''/'')"
    by auto
  then obtain c where c: "c \<in> set (rev ys)" "\<not> (c \<noteq> CHR ''.'' \<and> c \<noteq> CHR ''/'')"
    by blast
  have d: "dropWhile (\<lambda>c. c \<noteq> CHR ''.'' \<and> c \<noteq> CHR ''/'') (rev ys @ rev xs)
        = dropWhile (\<lambda>c. c \<noteq> CHR ''.'' \<and> c \<noteq> CHR ''/'') (rev ys) @ rev xs"
    using c by (rule dropWhile_append1)
  have t: "takeWhile (\<lambda>c. c \<noteq> CHR ''.'' \<and> c \<noteq> CHR ''/'') (rev ys @ rev xs)
        = takeWhile (\<lambda>c. c \<noteq> CHR ''.'' \<and> c \<noteq> CHR ''/'') (rev ys)"
    using c by (rule takeWhile_append1)
  have ne: "dropWhile (\<lambda>c. c \<noteq> CHR ''.'' \<and> c \<noteq> CHR ''/'') (rev ys) \<noteq> []"
    using c by (auto simp: dropWhile_eq_Nil_conv)
  then show ?thesis
    by (cases "dropWhile (\<lambda>c. c \<noteq> CHR ''.'' \<and> c \<noteq> CHR ''/'') (rev ys)")
       (simp_all add: filepath_Ext_def d t)
qed

lemma filepath_Ext_no_dot:
  assumes "CHR ''.'' \<notin> set s"
  shows "filepath_Ext s = []"
proof (cases "dropWhile (\<lambda>c. c \<noteq> CHR ''.'' \<and> c \<noteq> CHR ''/'') (rev s)")
  case Nil
  show ?thesis unfolding filepath_Ext_def Nil by simp
next
  case (Cons c cs)
  have "set (dropWhile (\<lambda>c. c \<noteq> CHR ''.'' \<and> c \<noteq> CHR ''/'') (rev s)) \<subseteq> set (rev s)"
    by (rule set_dropWhileD [THEN subsetI])
  with Cons have "c \<in> set s" by auto
  with assms have "c \<noteq> CHR ''.''" by auto
  then show ?thesis unfolding filepath_Ext_def Cons by simp
qed

lemma filepath_Ext_append_plain:
  assumes "\<forall>c \<in> set ys. c \<noteq> CHR ''.'' \<and> c \<noteq> CHR ''/''" and "CHR ''.'' \<notin> set xs"
  shows "filepath_Ext (xs @ ys) = []"
  using assms by (intro filepath_Ext_no_dot) auto

lemma drop_LastIndex:
  assumes "strings_LastIndex s c = Some idx"
  shows "c \<in> set (drop idx s)"
proof -
  define t where "t = takeWhile (\<lambda>x. x \<noteq> c) (rev s)"
  define r where "r = dropWhile (\<lambda>x. x \<noteq> c) (rev s)"
  from assms have mem: "c \<in> set s" and idx: "idx = length s - Suc (length t)"
    by (auto simp: strings_LastIndex_def t_def split: if_splits)
  have split: "rev s = t @ r"
    by (simp add: t_def r_def)
  from mem have "r \<noteq> []"
    by (auto simp: r_def dropWhile_eq_Nil_conv)
  then obtain x rest where r: "r = x # rest"
    by (cases r) auto
  have "\<not> (hd r \<noteq> c)"
    unfolding r_def using \<open>r \<noteq> []\<close> [unfolded r_def] by (rule hd_dropWhile)
  with r have x: "x = c" by simp
  from split r x have "rev (rev s) = rev (t @ c # rest)" by simp
  then have s: "s = rev rest @ c # rev t" by simp
  then have "length s = length rest + Suc (length t)" by simp
  with idx have "idx = length rest" by simp
  with s have "drop idx s = c # rev t" by simp
  then show ?thesis by simp
qed

lemma filepath_Ext_uniqueName:
  assumes "\<forall>c \<in> set timestamp \<union> set uniqueID. c \<noteq> CHR ''.'' \<and> c \<noteq> CHR ''/''"
  shows "filepath_Ext (integrated_uniqueName fileName timestamp uniqueID) = filepath_Ext fileName"
proof (cases "strings_LastIndex fileName (CHR ''.'')")
  case None
  then have nd: "CHR ''.'' \<notin> set fileName"
    by (simp add: strings_LastIndex_def split: if_splits)
  have u: "integrated_uniqueName fileName timestamp uniqueID
             = fileName @ (''_'' @ timestamp @ ''_'' @ uniqueID)"
    unfolding integrated_uniqueName_def None by simp
  have "\<forall>c \<in> set (''_'' @ timestamp @ ''_'' @ uniqueID). c \<noteq> CHR ''.'' \<and> c \<noteq> CHR ''/''"
    using assms by auto
  then have "filepath_Ext (fileName @ (''_'' @ timestamp @ ''_'' @ uniqueID)) = []"
    using nd by (rule filepath_Ext_append_plain)
  moreover have "filepath_Ext fileName = []"
    using nd by (rule filepath_Ext_no_dot)
  ultimately show ?thesis
    unfolding u by simp
next
  case (Some idx)
  have "CHR ''.'' \<in> set (drop idx fileName)"
    using Some by (rule drop_LastIndex)
  then have m: "\<exists>c \<in> set (drop idx fileName). c = CHR ''.'' \<or> c = CHR ''/''"
    by blast
  have u: "integrated_uniqueName fileName timestamp uniqueID
             = (take idx fileName @ ''_'' @ timestamp @ ''_'' @ uniqueID) @ drop idx fileName"
    unfolding integrated_uniqueName_def Some by simp
  have "filepath_Ext ((take idx fileName @ ''_'' @ timestamp @ ''_'' @ uniqueID) @ drop idx fileName)
          = filepath_Ext (drop idx fileName)"
    using m by (rule filepath_Ext_append_sep)
  moreover have "filepath_Ext (take idx fileName @ drop idx fileName)
          = filepath_Ext (drop idx fileName)"
    using m by (rule filepath_Ext_append_sep)
  ultimately show ?thesis
    unfolding u by simp
qed

text \<open>The switch of the integrated handler, read as a table.\<close>

lemma integrated_mimeType_table:
  "integrated_mimeType e fileName =
     (case map_of
        [(''.jpg'', ''image/jpeg''), (''.jpeg'', ''image/jpeg''),
         (''.png'', ''image/png''), (''.gif'', ''image/gif''),
         (''.pdf'', ''application/pdf''), (''.mp4'', ''video/mp4''),
         (''.mp3'', ''audio/mpeg''), (''.txt'', ''text/plain''),
         (''.doc'', ''application/msword''), (''.docx'', ''application/msword''),
         (''.xls'', ''application/vnd.ms-excel''),
         (''.xlsx'', ''application/vnd.ms-excel''),
         (''.zip'', ''application/zip''), (''.exe'', ''application/x-msdownload'')]
        (strings_ToLower e (filepath_Ext fileName)) of
        Some t \<Rightarrow> t
      | None \<Rightarrow> ''application/octet-stream'')"
proof (cases "filepath_Ext fileName = []")
  case True
  then show ?thesis
    by (simp add: integrated_mimeType_def strings_ToLower_def isASCII_def)
next
  case False
  then show ?thesis
    by (simp add: integrated_mimeType_def Let_def)
qed

lemma integrated_mimeType_pdf: "integrated_mimeType e ''report.pdf'' = ''application/pdf''"
  by (simp add: integrated_mimeType_def filepath_Ext_def strings_ToLower_def isASCII_def
      toLower_char_def)

text \<open>What integratedUpdateHandler.processDocument leaves in the catalog when the store
  accepts its INSERT.\<close>

lemma integrated_accepted:
  assumes "findFileName (Attributes d) = fileName" and "fileName \<noteq> []"
      and "insert_err e (length (execs w)) = None"
      and "found \<longleftrightarrow> read_err e (reads w) = None \<and>
             find (\<lambda>f. Name f = fileName \<and> UserId f = 7331706161) (files w) \<noteq> None"
      and "name = (if found
                   then integrated_uniqueName fileName (time_Format e (clock w))
                          (take 8 (uuid_String e (uuids w)))
                   else fileName)"
  shows "files (snd (integrated_processDocument h e (DocumentOf d) c w)) =
     files w @ [\<lparr>ID = uuid_String e (if found then Suc (uuids w) else uuids w),
          Name = name, Type = ''file'',
          MimeType = integrated_mimeType e name, FileSize = Size d, Category = None,
          Encrypted = None, UserId = 7331706161, Status = None, ChannelId = None,
          ParentId = (if parentId h \<noteq> [] then Some (parentId h) else None)\<rparr>]"
proof (cases found)
  case True
  with assms show ?thesis
    by (auto simp add: integrated_processDocument_def store_calls Let_def)
next
  case False
  with assms show ?thesis
    by (auto simp add: integrated_processDocument_def store_calls Let_def
        split: option.splits)
qed

text \<open>
  A name whose extension holds U+0130 (the bytes C4 B0) is lower-cased by the Unicode case
  mapping: where that gives \<open>.gif\<close>, the switch gives \<open>image/gif\<close>.
\<close>

lemma integrated_mimeType_unicode_example:
  assumes "ToLower_Unicode e (''.G'' @ [CHR 0xC4, CHR 0xB0] @ ''F'') = ''.gif''"
  shows "integrated_mimeType e (''scan.G'' @ [CHR 0xC4, CHR 0xB0] @ ''F'') = ''image/gif''"
  using assms
  by (simp add: integrated_mimeType_def filepath_Ext_def strings_ToLower_def isASCII_def
      Let_def)




text \<open>
  Claim C5, as amended. Every document the integrated handler stores (a file name found and
  an INSERT the store accepts) adds exactly one row, and the MIME type of that row is read
  off the extension of the stored name, lower-cased as \<open>strings.ToLower\<close> does it, by the
  handler's table of fourteen extensions, with \<open>application/octet-stream\<close> when the extension
  is not in the table or the name has none. The stored name has the extension of the
  document's name, also when the handler has made the name unique, as long as timestamp and
  id prefix hold neither dot nor slash. With no row of that name for the owner the stored
  name is the name found, and \<open>report.pdf\<close> gets \<open>application/pdf\<close>. The standalone handler
  infers nothing: the one row it adds for a document has type \<open>application/octet-stream\<close>.
  As stated, for every handler, the claim fails; the example after the theorem shows it.
\<close>

theorem mime_type_inference:
  assumes "findFileName (Attributes d) = fileName" and "fileName \<noteq> []"
      and "insert_err e (length (execs w)) = None"
  shows "(\<exists>row. files (snd (integrated_processDocument h e (DocumentOf d) c w))
                  = files w @ [row] \<and>
            MimeType row =
              (case map_of
                 [(''.jpg'', ''image/jpeg''), (''.jpeg'', ''image/jpeg''),
                  (''.png'', ''image/png''), (''.gif'', ''image/gif''),
                  (''.pdf'', ''application/pdf''), (''.mp4'', ''video/mp4''),
                  (''.mp3'', ''audio/mpeg''), (''.txt'', ''text/plain''),
                  (''.doc'', ''application/msword''), (''.docx'', ''application/msword''),
                  (''.xls'', ''application/vnd.ms-excel''),
                  (''.xlsx'', ''application/vnd.ms-excel''),
                  (''.zip'', ''application/zip''), (''.exe'', ''application/x-msdownload'')]
                 (strings_ToLower e (filepath_Ext (Name row))) of
                 Some t \<Rightarrow> t
               | None \<Rightarrow> ''application/octet-stream'') \<and>
            ((\<forall>ch \<in> set (time_Format e (clock w)) \<union> set (take 8 (uuid_String e (uuids w))).
                 ch \<noteq> CHR ''.'' \<and> ch \<noteq> CHR ''/'') \<longrightarrow>
               filepath_Ext (Name row) = filepath_Ext fileName) \<and>
            (find (\<lambda>f. Name f = fileName \<and> UserId f = 7331706161) (files w) = None \<longrightarrow>
               Name row = fileName \<and>
               (fileName = ''report.pdf'' \<longrightarrow> MimeType row = ''application/pdf''))) \<and>
         (read_err e (reads w) = None \<longrightarrow>
            (\<exists>row. files (snd (standalone_processDocument h e (DocumentOf d) c w))
                     = files w @ [row] \<and>
               Name row = fileName \<and> MimeType row = ''application/octet-stream''))"
proof -
  define found where "found \<longleftrightarrow> read_err e (reads w) = None \<and>
             find (\<lambda>f. Name f = fileName \<and> UserId f = 7331706161) (files w) \<noteq> None"
  define name where "name = (if found
                   then integrated_uniqueName fileName (time_Format e (clock w))
                          (take 8 (uuid_String e (uuids w)))
                   else fileName)"
  note run = integrated_accepted [OF assms found_def name_def, of h c]
  have ext: "(\<forall>ch \<in> set (time_Format e (clock w)) \<union> set (take 8 (uuid_String e (uuids w))).
                 ch \<noteq> CHR ''.'' \<and> ch \<noteq> CHR ''/'') \<longrightarrow>
               filepath_Ext name = filepath_Ext fileName"
    by (simp add: name_def filepath_Ext_uniqueName)
  have nofind: "find (\<lambda>f. Name f = fileName \<and> UserId f = 7331706161) (files w) = None \<longrightarrow>
               name = fileName"
    by (simp add: name_def found_def)
  define row where "row = \<lparr>ID = uuid_String e (if found then Suc (uuids w) else uuids w),
          Name = name, Type = ''file'',
          MimeType = integrated_mimeType e name, FileSize = Size d, Category = None,
          Encrypted = None, UserId = 7331706161, Status = None, ChannelId = None,
          ParentId = (if parentId h \<noteq> [] then Some (parentId h) else None)\<rparr>"
  have f: "files (snd (integrated_processDocument h e (DocumentOf d) c w)) = files w @ [row]"
    unfolding row_def by (rule run)
  have m: "MimeType row =
              (case map_of
                 [(''.jpg'', ''image/jpeg''), (''.jpeg'', ''image/jpeg''),
                  (''.png'', ''image/png''), (''.gif'', ''image/gif''),
                  (''.pdf'', ''application/pdf''), (''.mp4'', ''video/mp4''),
                  (''.mp3'', ''audio/mpeg''), (''.txt'', ''text/plain''),
                  (''.doc'', ''application/msword''), (''.docx'', ''application/msword''),
                  (''.xls'', ''application/vnd.ms-excel''),
                  (''.xlsx'', ''application/vnd.ms-excel''),
                  (''.zip'', ''application/zip''), (''.exe'', ''application/x-msdownload'')]
                 (strings_ToLower e (filepath_Ext (Name row))) of
                 Some t \<Rightarrow> t
               | None \<Rightarrow> ''application/octet-stream'')"
    unfolding row_def using integrated_mimeType_table [of e name] by simp
  have x: "(\<forall>ch \<in> set (time_Format e (clock w)) \<union> set (take 8 (uuid_String e (uuids w))).
                 ch \<noteq> CHR ''.'' \<and> ch \<noteq> CHR ''/'') \<longrightarrow>
               filepath_Ext (Name row) = filepath_Ext fileName"
    unfolding row_def using ext by simp
  have n: "find (\<lambda>f. Name f = fileName \<and> UserId f = 7331706161) (files w) = None \<longrightarrow>
               Name row = fileName \<and>
               (fileName = ''report.pdf'' \<longrightarrow> MimeType row = ''application/pdf'')"
    unfolding row_def using nofind integrated_mimeType_pdf [of e] by auto
  have sa: "read_err e (reads w) = None \<longrightarrow>
            (\<exists>row. files (snd (standalone_processDocument h e (DocumentOf d) c w))
                     = files w @ [row] \<and>
               Name row = fileName \<and> MimeType row = ''application/octet-stream'')"
    using assms
    by (simp add: standalone_processDocument_def store_calls Let_def models_File_def)
  have "\<exists>row. files (snd (integrated_processDocument h e (DocumentOf d) c w))
                  = files w @ [row] \<and>
            MimeType row =
              (case map_of
                 [(''.jpg'', ''image/jpeg''), (''.jpeg'', ''image/jpeg''),
                  (''.png'', ''image/png''), (''.gif'', ''image/gif''),
                  (''.pdf'', ''application/pdf''), (''.mp4'', ''video/mp4''),
                  (''.mp3'', ''audio/mpeg''), (''.txt'', ''text/plain''),
                  (''.doc'', ''application/msword''), (''.docx'', ''application/msword''),
                  (''.xls'', ''application/vnd.ms-excel''),
                  (''.xlsx'', ''application/vnd.ms-excel''),
                  (''.zip'', ''application/zip''), (''.exe'', ''application/x-msdownload'')]
                 (strings_ToLower e (filepath_Ext (Name row))) of
                 Some t \<Rightarrow> t
               | None \<Rightarrow> ''application/octet-stream'') \<and>
            ((\<forall>ch \<in> set (time_Format e (clock w)) \<union> set (take 8 (uuid_String e (uuids w))).
                 ch \<noteq> CHR ''.'' \<and> ch \<noteq> CHR ''/'') \<longrightarrow>
               filepath_Ext (Name row) = filepath_Ext fileName) \<and>
            (find (\<lambda>f. Name f = fileName \<and> UserId f = 7331706161) (files w) = None \<longrightarrow>
               Name row = fileName \<and>
               (fileName = ''report.pdf'' \<longrightarrow> MimeType row = ''application/pdf''))"
    by (rule exI [of _ row], intro conjI) (rule f, rule m, rule x, rule n)
  then show ?thesis
    using sa by (rule conjI)
qed

theorem mime_type_inference_witness:
  "map Name (drop (length (files empty_world))
     (files (snd (integrated_processDocument test_handler store_accepting
        (DocumentOf (test_document ''report.pdf'')) 2523726746 empty_world))))
     = [''report.pdf''] \<and>
   map MimeType (drop (length (files empty_world))
     (files (snd (integrated_processDocument test_handler store_accepting
        (DocumentOf (test_document ''report.pdf'')) 2523726746 empty_world))))
     = [''application/pdf''] \<and>
   map MimeType (drop (length (files empty_world))
     (files (snd (standalone_processDocument test_handler store_accepting
        (DocumentOf (test_document ''report.pdf'')) 2523726746 empty_world))))
     = [''application/octet-stream''] \<and>
   map MimeType (drop (length (files catalog_with_report))
     (files (snd (integrated_processDocument test_handler store_accepting
        (DocumentOf (test_document ''report.pdf'')) 2523726746 catalog_with_report))))
     = [''application/pdf'']"
proof -
  have 1: "findFileName (Attributes (test_document ''report.pdf'')) = ''report.pdf''"
    by (simp add: test_document_def)
  have 2: "''report.pdf'' \<noteq> []"
    by simp
  have 3: "insert_err store_accepting (length (execs empty_world)) = None"
    by (simp add: store_accepting_def)
  have 4: "\<forall>ch \<in> set (time_Format store_accepting (clock catalog_with_report)) \<union>
                  set (take 8 (uuid_String store_accepting (uuids catalog_with_report))).
             ch \<noteq> CHR ''.'' \<and> ch \<noteq> CHR ''/''"
    by (simp add: store_accepting_def catalog_with_report_def test_uuid_def)
  have 5: "find (\<lambda>f. Name f = ''report.pdf'' \<and> UserId f = 7331706161) (files empty_world)
             = None"
    by (simp add: files_empty_world)
  have 6: "read_err store_accepting (reads empty_world) = None"
    by (simp add: store_accepting_def)
  note t = mime_type_inference [OF 1 2 3, where h = test_handler and c = 2523726746]
  from t [THEN conjunct1] obtain row where row:
    "files (snd (integrated_processDocument test_handler store_accepting
        (DocumentOf (test_document ''report.pdf'')) 2523726746 empty_world))
       = files empty_world @ [row]"
    "find (\<lambda>f. Name f = ''report.pdf'' \<and> UserId f = 7331706161) (files empty_world) = None
       \<longrightarrow> Name row = ''report.pdf'' \<and>
           (''report.pdf'' = ''report.pdf'' \<longrightarrow> MimeType row = ''application/pdf'')"
    by (elim conjE exE)
  from row(2) 5 have ab: "Name row = ''report.pdf'' \<and>
      (''report.pdf'' = ''report.pdf'' \<longrightarrow> MimeType row = ''application/pdf'')"
    by (rule mp)
  from ab have a: "Name row = ''report.pdf''"
    by (rule conjunct1)
  from ab have b: "MimeType row = ''application/pdf''"
    by simp
  from t [THEN conjunct2, THEN mp, OF 6] obtain srow where srow:
    "files (snd (standalone_processDocument test_handler store_accepting
        (DocumentOf (test_document ''report.pdf'')) 2523726746 empty_world))
       = files empty_world @ [srow]"
    "MimeType srow = ''application/octet-stream''"
    by (elim exE conjE)
  have 7: "insert_err store_accepting (length (execs catalog_with_report)) = None"
    by (simp add: store_accepting_def)
  from mime_type_inference [OF 1 2 7, where h = test_handler and c = 2523726746,
      THEN conjunct1]
  obtain rrow where rrow:
    "files (snd (integrated_processDocument test_handler store_accepting
        (DocumentOf (test_document ''report.pdf'')) 2523726746 catalog_with_report))
       = files catalog_with_report @ [rrow]"
    "MimeType rrow =
       (case map_of
          [(''.jpg'', ''image/jpeg''), (''.jpeg'', ''image/jpeg''),
           (''.png'', ''image/png''), (''.gif'', ''image/gif''),
           (''.pdf'', ''application/pdf''), (''.mp4'', ''video/mp4''),
           (''.mp3'', ''audio/mpeg''), (''.txt'', ''text/plain''),
           (''.doc'', ''application/msword''), (''.docx'', ''application/msword''),
           (''.xls'', ''application/vnd.ms-excel''),
           (''.xlsx'', ''application/vnd.ms-excel''),
           (''.zip'', ''application/zip''), (''.exe'', ''application/x-msdownload'')]
          (strings_ToLower store_accepting (filepath_Ext (Name rrow))) of
          Some t \<Rightarrow> t
        | None \<Rightarrow> ''application/octet-stream'')"
    "(\<forall>ch \<in> set (time_Format store_accepting (clock catalog_with_report)) \<union>
              set (take 8 (uuid_String store_accepting (uuids catalog_with_report))).
         ch \<noteq> CHR ''.'' \<and> ch \<noteq> CHR ''/'') \<longrightarrow>
       filepath_Ext (Name rrow) = filepath_Ext ''report.pdf''"
    by (elim exE conjE)
  from rrow(3) 4 have "filepath_Ext (Name rrow) = filepath_Ext ''report.pdf''"
    by (rule mp)
  then have e: "filepath_Ext (Name rrow) = ''.pdf''"
    by (simp add: filepath_Ext_def)
  have r: "MimeType rrow = ''application/pdf''"
    unfolding rrow(2) e by (simp add: strings_ToLower_def isASCII_def toLower_char_def)
  show ?thesis
    unfolding row(1) srow(1) rrow(1) using a b srow(2) r by simp
qed

text \<open>
  The standalone handler, given \<open>report.pdf\<close> and a store that accepts the INSERT, creates
  one row, of type \<open>application/octet-stream\<close>.
\<close>

theorem mime_type_counterexample:
  "map MimeType (files (snd (standalone_processDocument test_handler store_accepting
      (DocumentOf (test_document ''report.pdf'')) 2523726746 empty_world)))
     = [''application/octet-stream'']"
  by (simp add: standalone_example models_File_def)




end
